theory Spec2Isabelle
  imports Main "HOL-Library.Monad_Syntax"
begin

section \<open>Objects, pointers and the console\<close>

text \<open>
  Both demo programs allocate their objects with new-expressions, reach them through
  pointers, release them with delete-expressions and write to \<^verbatim>\<open>std::cout\<close>.
  The model keeps this explicit. A pointer is an address, the free store maps the
  addresses of live objects to their contents, and every operation of the programs
  transforms a world made of the free store, the next unused address, the text written
  to the console so far, and the list of objects the new-expressions have created, in
  order of creation and with the contents they were created with.

  An operation returns \<open>None\<close> where the C++ program would have no defined behaviour:
  a member access or a delete through a pointer that designates no live object of the
  expected class.
\<close>

type_synonym addr = nat

record 'o world =
  heap :: "addr \<rightharpoonup> 'o"
  fresh :: addr
  cout :: string
  created :: "'o list"

definition world0 :: "'o world" where
  "world0 = \<lparr>heap = Map.empty, fresh = 0, cout = [], created = []\<rparr>"

text \<open>\<^verbatim>\<open>new T\<close>: a fresh address now holds the default-initialised object.\<close>

definition new_object :: "'o \<Rightarrow> 'o world \<Rightarrow> addr \<times> 'o world" where
  "new_object ob w =
     (fresh w,
      w\<lparr>heap := (heap w)(fresh w \<mapsto> ob),
        fresh := Suc (fresh w),
        created := created w @ [ob]\<rparr>)"

text \<open>\<^verbatim>\<open>delete p\<close> for a class whose destructor does nothing else.\<close>

definition delete_object :: "addr \<Rightarrow> 'o world \<Rightarrow> 'o world option" where
  "delete_object p w =
     (case heap w p of
        None \<Rightarrow> None
      | Some _ \<Rightarrow> Some (w\<lparr>heap := (heap w)(p := None)\<rparr>))"

text \<open>An assignment to the members of the live object at \<open>p\<close>.\<close>

definition store :: "addr \<Rightarrow> 'o \<Rightarrow> 'o world \<Rightarrow> 'o world" where
  "store p ob w = w\<lparr>heap := (heap w)(p \<mapsto> ob)\<rparr>"

text \<open>\<^verbatim>\<open>std::cout << s\<close> and \<^verbatim>\<open>std::endl\<close>.\<close>

definition print :: "string \<Rightarrow> 'o world \<Rightarrow> 'o world" where
  "print s w = w\<lparr>cout := cout w @ s\<rparr>"

definition endl :: string where
  "endl = [CHR 0x0A]"

text \<open>The apostrophe the text edits print around their text.\<close>

definition apostrophe :: string where
  "apostrophe = [CHR 0x27]"

text \<open>
  What a finished \<^verbatim>\<open>main\<close> leaves behind: its exit status, the console text and the
  objects it created.
\<close>

definition exit_code :: "(int \<times> 'o world) option \<Rightarrow> int option" where
  "exit_code r = map_option fst r"

definition console :: "(int \<times> 'o world) option \<Rightarrow> string option" where
  "console r = map_option (cout \<circ> snd) r"

definition objects_created :: "(int \<times> 'o world) option \<Rightarrow> 'o list option" where
  "objects_created r = map_option (created \<circ> snd) r"

section \<open>The abstract factory demo (abstract\_factory/main.cpp)\<close>

text \<open>
  The classes of the program, each with its data members. \<^verbatim>\<open>TextEdit::m_text\<close> is
  inherited by both text edits; a \<^verbatim>\<open>std::string\<close> member is default-initialised to
  the empty string.
\<close>

datatype fobj =
    WindowsButton
  | WindowsTextEdit string
  | MacOSButton
  | MacOSTextEdit string
  | WindowsWindowApplication
  | MacOSWindowApplication

subsection \<open>Buttons\<close>

definition WindowsButton_buttonClick :: "addr \<Rightarrow> fobj world \<Rightarrow> fobj world option" where
  "WindowsButton_buttonClick this w =
     Some (print (''Windows button was clicked'' @ endl) w)"

definition MacOSButton_buttonClick :: "addr \<Rightarrow> fobj world \<Rightarrow> fobj world option" where
  "MacOSButton_buttonClick this w =
     Some (print (''MacOS button was clicked'' @ endl) w)"

text \<open>The virtual call \<^verbatim>\<open>button->buttonClick()\<close>: the object's class selects the override.\<close>

definition buttonClick :: "addr \<Rightarrow> fobj world \<Rightarrow> fobj world option" where
  "buttonClick this w =
     (case heap w this of
        Some WindowsButton \<Rightarrow> WindowsButton_buttonClick this w
      | Some MacOSButton \<Rightarrow> MacOSButton_buttonClick this w
      | _ \<Rightarrow> None)"

subsection \<open>Text edits\<close>

definition WindowsTextEdit_getText :: "addr \<Rightarrow> fobj world \<Rightarrow> (string \<times> fobj world) option" where
  "WindowsTextEdit_getText this w =
     (case heap w this of
        Some (WindowsTextEdit m_text) \<Rightarrow> Some (m_text, w)
      | _ \<Rightarrow> None)"

definition WindowsTextEdit_setText :: "addr \<Rightarrow> string \<Rightarrow> fobj world \<Rightarrow> fobj world option" where
  "WindowsTextEdit_setText this text w =
     (case heap w this of
        Some (WindowsTextEdit _) \<Rightarrow>
          (let w1 = store this (WindowsTextEdit text) w in
           case heap w1 this of
             Some (WindowsTextEdit m_text) \<Rightarrow>
               Some (print (''Windows TextEdit text set to '' @ apostrophe @ m_text
                            @ apostrophe @ endl) w1)
           | _ \<Rightarrow> None)
      | _ \<Rightarrow> None)"

definition MacOSTextEdit_getText :: "addr \<Rightarrow> fobj world \<Rightarrow> (string \<times> fobj world) option" where
  "MacOSTextEdit_getText this w =
     (case heap w this of
        Some (MacOSTextEdit m_text) \<Rightarrow> Some (m_text, w)
      | _ \<Rightarrow> None)"

definition MacOSTextEdit_setText :: "addr \<Rightarrow> string \<Rightarrow> fobj world \<Rightarrow> fobj world option" where
  "MacOSTextEdit_setText this text w =
     (case heap w this of
        Some (MacOSTextEdit _) \<Rightarrow>
          (let w1 = store this (MacOSTextEdit text) w in
           case heap w1 this of
             Some (MacOSTextEdit m_text) \<Rightarrow>
               Some (print (''MacOS TextEdit text set to '' @ apostrophe @ m_text
                            @ apostrophe @ endl) w1)
           | _ \<Rightarrow> None)
      | _ \<Rightarrow> None)"

text \<open>The virtual calls \<^verbatim>\<open>textEdit->getText()\<close> and \<^verbatim>\<open>textEdit->setText(text)\<close>.\<close>

definition getText :: "addr \<Rightarrow> fobj world \<Rightarrow> (string \<times> fobj world) option" where
  "getText this w =
     (case heap w this of
        Some (WindowsTextEdit _) \<Rightarrow> WindowsTextEdit_getText this w
      | Some (MacOSTextEdit _) \<Rightarrow> MacOSTextEdit_getText this w
      | _ \<Rightarrow> None)"

definition setText :: "addr \<Rightarrow> string \<Rightarrow> fobj world \<Rightarrow> fobj world option" where
  "setText this text w =
     (case heap w this of
        Some (WindowsTextEdit _) \<Rightarrow> WindowsTextEdit_setText this text w
      | Some (MacOSTextEdit _) \<Rightarrow> MacOSTextEdit_setText this text w
      | _ \<Rightarrow> None)"

subsection \<open>The factories\<close>

definition WindowsWindowApplication_createButton ::
  "addr \<Rightarrow> fobj world \<Rightarrow> (addr \<times> fobj world) option" where
  "WindowsWindowApplication_createButton this w = Some (new_object WindowsButton w)"

definition WindowsWindowApplication_createTextEdit ::
  "addr \<Rightarrow> fobj world \<Rightarrow> (addr \<times> fobj world) option" where
  "WindowsWindowApplication_createTextEdit this w = Some (new_object (WindowsTextEdit []) w)"

definition MacOSWindowApplication_createButton ::
  "addr \<Rightarrow> fobj world \<Rightarrow> (addr \<times> fobj world) option" where
  "MacOSWindowApplication_createButton this w = Some (new_object MacOSButton w)"

definition MacOSWindowApplication_createTextEdit ::
  "addr \<Rightarrow> fobj world \<Rightarrow> (addr \<times> fobj world) option" where
  "MacOSWindowApplication_createTextEdit this w = Some (new_object (MacOSTextEdit []) w)"

text \<open>The virtual calls \<^verbatim>\<open>application->createButton()\<close> and \<^verbatim>\<open>application->createTextEdit()\<close>.\<close>

definition createButton :: "addr \<Rightarrow> fobj world \<Rightarrow> (addr \<times> fobj world) option" where
  "createButton this w =
     (case heap w this of
        Some WindowsWindowApplication \<Rightarrow> WindowsWindowApplication_createButton this w
      | Some MacOSWindowApplication \<Rightarrow> MacOSWindowApplication_createButton this w
      | _ \<Rightarrow> None)"

definition createTextEdit :: "addr \<Rightarrow> fobj world \<Rightarrow> (addr \<times> fobj world) option" where
  "createTextEdit this w =
     (case heap w this of
        Some WindowsWindowApplication \<Rightarrow> WindowsWindowApplication_createTextEdit this w
      | Some MacOSWindowApplication \<Rightarrow> MacOSWindowApplication_createTextEdit this w
      | _ \<Rightarrow> None)"

subsection \<open>The platform selector\<close>

datatype OS = Windows | MacOS | None_OS

text \<open>
  The \<^verbatim>\<open>#if PLATFORM_WINDOWS ... #elif PLATFORM_MACOS ... #else\<close> chain that initialises
  the constant \<^verbatim>\<open>USED_API\<close>, as a function of the two macros, and the macros as the
  file defines them.
\<close>

definition select_api :: "int \<Rightarrow> int \<Rightarrow> OS" where
  "select_api platform_windows platform_macos =
     (if platform_windows \<noteq> 0 then Windows
      else if platform_macos \<noteq> 0 then MacOS
      else None_OS)"

definition PLATFORM_WINDOWS :: int where
  "PLATFORM_WINDOWS = 1"

definition PLATFORM_MACOS :: int where
  "PLATFORM_MACOS = 0"

definition USED_API :: OS where
  "USED_API = select_api PLATFORM_WINDOWS PLATFORM_MACOS"

subsection \<open>The client and the program\<close>

definition client_code_abstract_factory :: "addr \<Rightarrow> fobj world \<Rightarrow> fobj world option" where
  "client_code_abstract_factory application w = do {
     (button, w1) \<leftarrow> createButton application w;
     (textEdit, w2) \<leftarrow> createTextEdit application w1;
     w3 \<leftarrow> buttonClick button w2;
     w4 \<leftarrow> setText textEdit ''Hello OS'' w3;
     (text, w5) \<leftarrow> getText textEdit w4;
     w6 \<leftarrow> Some (print (''Text edit have text -> '' @ text @ endl) w5);
     w7 \<leftarrow> delete_object button w6;
     delete_object textEdit w7
   }"

text \<open>
  \<^verbatim>\<open>main\<close>, with the value of the compile-time constant \<^verbatim>\<open>USED_API\<close> as its
  parameter \<open>used_api\<close>. The result is the exit status and the final world.
\<close>

definition main_abstract_factory :: "OS \<Rightarrow> fobj world \<Rightarrow> (int \<times> fobj world) option" where
  "main_abstract_factory used_api w =
     (case used_api of
        Windows \<Rightarrow> do {
          (app, w1) \<leftarrow> Some (new_object WindowsWindowApplication w);
          w2 \<leftarrow> client_code_abstract_factory app w1;
          w3 \<leftarrow> delete_object app w2;
          Some (0, w3)
        }
      | MacOS \<Rightarrow> do {
          (app, w1) \<leftarrow> Some (new_object MacOSWindowApplication w);
          w2 \<leftarrow> client_code_abstract_factory app w1;
          w3 \<leftarrow> delete_object app w2;
          Some (0, w3)
        }
      | None_OS \<Rightarrow> Some (1, print ''None of platforms is chosen!'' w))"

section \<open>The builder demo (builder/main.cpp)\<close>

text \<open>
  The classes of the program with their data members: a window holds its
  \<^verbatim>\<open>structure\<close>, a builder the pointer \<^verbatim>\<open>window\<close> to the product it assembles, the
  director the pointer \<^verbatim>\<open>m_builder\<close>. A pointer member that no constructor initialises
  has no value yet, which is \<open>None\<close>.
\<close>

datatype bobj =
    MacOSWindow string
  | WindowsWindow string
  | MacOSWindowBuilder "addr option"
  | WindowsWindowBuilder "addr option"
  | WindowCreationManager "addr option"

subsection \<open>Windows\<close>

definition MacOSWindow_printStructure :: "addr \<Rightarrow> bobj world \<Rightarrow> bobj world option" where
  "MacOSWindow_printStructure this w =
     (case heap w this of
        Some (MacOSWindow structure) \<Rightarrow> Some (print (structure @ endl) w)
      | _ \<Rightarrow> None)"

definition WindowsWindow_printStructure :: "addr \<Rightarrow> bobj world \<Rightarrow> bobj world option" where
  "WindowsWindow_printStructure this w =
     (case heap w this of
        Some (WindowsWindow structure) \<Rightarrow> Some (print (structure @ endl) w)
      | _ \<Rightarrow> None)"

subsection \<open>The MacOS builder\<close>

text \<open>\<^verbatim>\<open>window = new MacOSWindow\<close>: the pointer the builder held before is overwritten.\<close>

definition MacOSWindowBuilder_reset :: "addr \<Rightarrow> bobj world \<Rightarrow> bobj world option" where
  "MacOSWindowBuilder_reset this w =
     (case heap w this of
        Some (MacOSWindowBuilder _) \<Rightarrow>
          (case new_object (MacOSWindow []) w of
             (p, w1) \<Rightarrow> Some (store this (MacOSWindowBuilder (Some p)) w1))
      | _ \<Rightarrow> None)"

text \<open>\<^verbatim>\<open>new MacOSWindowBuilder\<close>: the constructor calls \<^verbatim>\<open>reset()\<close>.\<close>

definition new_MacOSWindowBuilder :: "bobj world \<Rightarrow> (addr \<times> bobj world) option" where
  "new_MacOSWindowBuilder w =
     (case new_object (MacOSWindowBuilder None) w of
        (this, w1) \<Rightarrow> do {
          w2 \<leftarrow> MacOSWindowBuilder_reset this w1;
          Some (this, w2)
        })"

text \<open>\<^verbatim>\<open>delete builder\<close>: the destructor deletes the window, then the builder goes.\<close>

definition delete_MacOSWindowBuilder :: "addr \<Rightarrow> bobj world \<Rightarrow> bobj world option" where
  "delete_MacOSWindowBuilder this w =
     (case heap w this of
        Some (MacOSWindowBuilder (Some window)) \<Rightarrow> do {
          w1 \<leftarrow> delete_object window w;
          delete_object this w1
        }
      | _ \<Rightarrow> None)"

text \<open>\<^verbatim>\<open>window->structure += s\<close> inside a member of the builder at \<open>this\<close>.\<close>

definition MacOSWindowBuilder_append :: "addr \<Rightarrow> string \<Rightarrow> bobj world \<Rightarrow> bobj world option" where
  "MacOSWindowBuilder_append this s w =
     (case heap w this of
        Some (MacOSWindowBuilder (Some window)) \<Rightarrow>
          (case heap w window of
             Some (MacOSWindow structure) \<Rightarrow> Some (store window (MacOSWindow (structure @ s)) w)
           | _ \<Rightarrow> None)
      | _ \<Rightarrow> None)"

definition MacOSWindowBuilder_createNativeWindow :: "addr \<Rightarrow> bobj world \<Rightarrow> bobj world option" where
  "MacOSWindowBuilder_createNativeWindow this w =
     MacOSWindowBuilder_append this ''Window: Standard MacOS; '' w"

definition MacOSWindowBuilder_addMenubar :: "addr \<Rightarrow> bobj world \<Rightarrow> bobj world option" where
  "MacOSWindowBuilder_addMenubar this w =
     MacOSWindowBuilder_append this ''Menubar: MacOS default; '' w"

definition MacOSWindowBuilder_setTitle :: "addr \<Rightarrow> string \<Rightarrow> bobj world \<Rightarrow> bobj world option" where
  "MacOSWindowBuilder_setTitle this title w =
     MacOSWindowBuilder_append this (''Window title: '' @ title @ '';'') w"

definition MacOSWindowBuilder_setDefaultBackgroundColor ::
  "addr \<Rightarrow> bobj world \<Rightarrow> bobj world option" where
  "MacOSWindowBuilder_setDefaultBackgroundColor this w =
     MacOSWindowBuilder_append this ''Background color: MacOS default; '' w"

definition MacOSWindowBuilder_getWindow :: "addr \<Rightarrow> bobj world \<Rightarrow> (addr \<times> bobj world) option" where
  "MacOSWindowBuilder_getWindow this w =
     (case heap w this of
        Some (MacOSWindowBuilder (Some window)) \<Rightarrow> Some (window, w)
      | _ \<Rightarrow> None)"

subsection \<open>The Windows builder\<close>

definition WindowsWindowBuilder_reset :: "addr \<Rightarrow> bobj world \<Rightarrow> bobj world option" where
  "WindowsWindowBuilder_reset this w =
     (case heap w this of
        Some (WindowsWindowBuilder _) \<Rightarrow>
          (case new_object (WindowsWindow []) w of
             (p, w1) \<Rightarrow> Some (store this (WindowsWindowBuilder (Some p)) w1))
      | _ \<Rightarrow> None)"

definition new_WindowsWindowBuilder :: "bobj world \<Rightarrow> (addr \<times> bobj world) option" where
  "new_WindowsWindowBuilder w =
     (case new_object (WindowsWindowBuilder None) w of
        (this, w1) \<Rightarrow> do {
          w2 \<leftarrow> WindowsWindowBuilder_reset this w1;
          Some (this, w2)
        })"

definition delete_WindowsWindowBuilder :: "addr \<Rightarrow> bobj world \<Rightarrow> bobj world option" where
  "delete_WindowsWindowBuilder this w =
     (case heap w this of
        Some (WindowsWindowBuilder (Some window)) \<Rightarrow> do {
          w1 \<leftarrow> delete_object window w;
          delete_object this w1
        }
      | _ \<Rightarrow> None)"

definition WindowsWindowBuilder_append :: "addr \<Rightarrow> string \<Rightarrow> bobj world \<Rightarrow> bobj world option" where
  "WindowsWindowBuilder_append this s w =
     (case heap w this of
        Some (WindowsWindowBuilder (Some window)) \<Rightarrow>
          (case heap w window of
             Some (WindowsWindow structure) \<Rightarrow>
               Some (store window (WindowsWindow (structure @ s)) w)
           | _ \<Rightarrow> None)
      | _ \<Rightarrow> None)"

definition WindowsWindowBuilder_createNativeWindow :: "addr \<Rightarrow> bobj world \<Rightarrow> bobj world option" where
  "WindowsWindowBuilder_createNativeWindow this w =
     WindowsWindowBuilder_append this ''Window: Standard Windows; '' w"

definition WindowsWindowBuilder_addMenubar :: "addr \<Rightarrow> bobj world \<Rightarrow> bobj world option" where
  "WindowsWindowBuilder_addMenubar this w =
     WindowsWindowBuilder_append this ''Menubar: Windows default; '' w"

definition WindowsWindowBuilder_setTitle :: "addr \<Rightarrow> string \<Rightarrow> bobj world \<Rightarrow> bobj world option" where
  "WindowsWindowBuilder_setTitle this title w =
     WindowsWindowBuilder_append this (''Window title: '' @ title @ '';'') w"

definition WindowsWindowBuilder_setDefaultBackgroundColor ::
  "addr \<Rightarrow> bobj world \<Rightarrow> bobj world option" where
  "WindowsWindowBuilder_setDefaultBackgroundColor this w =
     WindowsWindowBuilder_append this ''Background color: Windows default; '' w"

definition WindowsWindowBuilder_getWindow :: "addr \<Rightarrow> bobj world \<Rightarrow> (addr \<times> bobj world) option" where
  "WindowsWindowBuilder_getWindow this w =
     (case heap w this of
        Some (WindowsWindowBuilder (Some window)) \<Rightarrow> Some (window, w)
      | _ \<Rightarrow> None)"

subsection \<open>The WindowBuilder interface\<close>

text \<open>The four virtual calls the director makes through \<^verbatim>\<open>m_builder\<close>.\<close>

definition createNativeWindow :: "addr \<Rightarrow> bobj world \<Rightarrow> bobj world option" where
  "createNativeWindow this w =
     (case heap w this of
        Some (MacOSWindowBuilder _) \<Rightarrow> MacOSWindowBuilder_createNativeWindow this w
      | Some (WindowsWindowBuilder _) \<Rightarrow> WindowsWindowBuilder_createNativeWindow this w
      | _ \<Rightarrow> None)"

definition addMenubar :: "addr \<Rightarrow> bobj world \<Rightarrow> bobj world option" where
  "addMenubar this w =
     (case heap w this of
        Some (MacOSWindowBuilder _) \<Rightarrow> MacOSWindowBuilder_addMenubar this w
      | Some (WindowsWindowBuilder _) \<Rightarrow> WindowsWindowBuilder_addMenubar this w
      | _ \<Rightarrow> None)"

definition setTitle :: "addr \<Rightarrow> string \<Rightarrow> bobj world \<Rightarrow> bobj world option" where
  "setTitle this title w =
     (case heap w this of
        Some (MacOSWindowBuilder _) \<Rightarrow> MacOSWindowBuilder_setTitle this title w
      | Some (WindowsWindowBuilder _) \<Rightarrow> WindowsWindowBuilder_setTitle this title w
      | _ \<Rightarrow> None)"

definition setDefaultBackgroundColor :: "addr \<Rightarrow> bobj world \<Rightarrow> bobj world option" where
  "setDefaultBackgroundColor this w =
     (case heap w this of
        Some (MacOSWindowBuilder _) \<Rightarrow> MacOSWindowBuilder_setDefaultBackgroundColor this w
      | Some (WindowsWindowBuilder _) \<Rightarrow> WindowsWindowBuilder_setDefaultBackgroundColor this w
      | _ \<Rightarrow> None)"

subsection \<open>The director\<close>

definition setBuilder :: "addr \<Rightarrow> addr \<Rightarrow> bobj world \<Rightarrow> bobj world option" where
  "setBuilder this builder w =
     (case heap w this of
        Some (WindowCreationManager _) \<Rightarrow>
          Some (store this (WindowCreationManager (Some builder)) w)
      | _ \<Rightarrow> None)"

text \<open>Reading the member \<^verbatim>\<open>m_builder\<close> of the director at \<open>this\<close>.\<close>

definition m_builder :: "addr \<Rightarrow> bobj world \<Rightarrow> addr option" where
  "m_builder this w =
     (case heap w this of
        Some (WindowCreationManager (Some builder)) \<Rightarrow> Some builder
      | _ \<Rightarrow> None)"

definition createDefaultWindow :: "addr \<Rightarrow> bobj world \<Rightarrow> bobj world option" where
  "createDefaultWindow this w = do {
     b1 \<leftarrow> m_builder this w;
     w1 \<leftarrow> createNativeWindow b1 w;
     b2 \<leftarrow> m_builder this w1;
     w2 \<leftarrow> addMenubar b2 w1;
     b3 \<leftarrow> m_builder this w2;
     w3 \<leftarrow> setTitle b3 ''New Window'' w2;
     b4 \<leftarrow> m_builder this w3;
     setDefaultBackgroundColor b4 w3
   }"

definition createWindowWithTitle :: "addr \<Rightarrow> string \<Rightarrow> bobj world \<Rightarrow> bobj world option" where
  "createWindowWithTitle this title w = do {
     b1 \<leftarrow> m_builder this w;
     w1 \<leftarrow> createNativeWindow b1 w;
     b2 \<leftarrow> m_builder this w1;
     w2 \<leftarrow> addMenubar b2 w1;
     b3 \<leftarrow> m_builder this w2;
     w3 \<leftarrow> setTitle b3 title w2;
     b4 \<leftarrow> m_builder this w3;
     setDefaultBackgroundColor b4 w3
   }"

subsection \<open>The client and the program\<close>

definition client_code_builder :: "addr \<Rightarrow> bobj world \<Rightarrow> bobj world option" where
  "client_code_builder manager w = do {
     (builder, w1) \<leftarrow> new_WindowsWindowBuilder w;
     w2 \<leftarrow> setBuilder manager builder w1;
     w3 \<leftarrow> createDefaultWindow manager w2;
     (window, w4) \<leftarrow> WindowsWindowBuilder_getWindow builder w3;
     w5 \<leftarrow> WindowsWindow_printStructure window w4;
     w6 \<leftarrow> delete_object window w5;
     w7 \<leftarrow> WindowsWindowBuilder_reset builder w6;
     w8 \<leftarrow> createWindowWithTitle manager ''New title'' w7;
     (window', w9) \<leftarrow> WindowsWindowBuilder_getWindow builder w8;
     w10 \<leftarrow> WindowsWindow_printStructure window' w9;
     w11 \<leftarrow> delete_WindowsWindowBuilder builder w10;

     (mbuilder, m1) \<leftarrow> new_MacOSWindowBuilder w11;
     m2 \<leftarrow> setBuilder manager mbuilder m1;
     m3 \<leftarrow> createDefaultWindow manager m2;
     (mwindow, m4) \<leftarrow> MacOSWindowBuilder_getWindow mbuilder m3;
     m5 \<leftarrow> MacOSWindow_printStructure mwindow m4;
     m6 \<leftarrow> delete_object mwindow m5;
     m7 \<leftarrow> MacOSWindowBuilder_reset mbuilder m6;
     m8 \<leftarrow> createWindowWithTitle manager ''New title'' m7;
     (mwindow', m9) \<leftarrow> MacOSWindowBuilder_getWindow mbuilder m8;
     m10 \<leftarrow> MacOSWindow_printStructure mwindow' m9;
     delete_MacOSWindowBuilder mbuilder m10
   }"

definition main_builder :: "bobj world \<Rightarrow> (int \<times> bobj world) option" where
  "main_builder w = do {
     (manager, w1) \<leftarrow> Some (new_object (WindowCreationManager None) w);
     w2 \<leftarrow> client_code_builder manager w1;
     w3 \<leftarrow> delete_object manager w2;
     Some (0, w3)
   }"

section \<open>Product families\<close>





section \<open>Clients of the abstract capability set\<close>

text \<open>
  The spec's invariant speaks of a client that never inspects concrete types and uses
  only the abstract capability set. Such a client is a program over the member functions
  of the abstract classes: it calls them on the pointers it was handed or has received
  from them, goes on with the values they return, and writes text of its own to the
  console. It names no concrete class, so it holds no new-expression and no call of a
  member function that only a concrete class has.

  The two datatypes below are these programs. For the factory demo the abstract classes
  are \<^verbatim>\<open>WindowApplication\<close>, \<^verbatim>\<open>Button\<close> and \<^verbatim>\<open>TextEdit\<close>, with their virtual
  destructors. For the builder demo the abstract class is \<^verbatim>\<open>WindowBuilder\<close>, which has
  no virtual destructor; its programs may also call the member functions of the
  director, which the client is handed. Running a program gives each call the meaning it
  has in the model above.
\<close>

datatype widget_program =
    Widget_return
  | Call_createButton "addr \<Rightarrow> widget_program"
  | Call_createTextEdit "addr \<Rightarrow> widget_program"
  | Call_buttonClick addr widget_program
  | Call_setText addr string widget_program
  | Call_getText addr "string \<Rightarrow> widget_program"
  | Widget_cout string widget_program
  | Widget_delete addr widget_program

primrec run_widget_program ::
  "widget_program \<Rightarrow> addr \<Rightarrow> fobj world \<Rightarrow> fobj world option" where
  "run_widget_program Widget_return application w = Some w"
| "run_widget_program (Call_createButton k) application w = do {
     (button, w1) \<leftarrow> createButton application w;
     run_widget_program (k button) application w1
   }"
| "run_widget_program (Call_createTextEdit k) application w = do {
     (textEdit, w1) \<leftarrow> createTextEdit application w;
     run_widget_program (k textEdit) application w1
   }"
| "run_widget_program (Call_buttonClick button k) application w = do {
     w1 \<leftarrow> buttonClick button w;
     run_widget_program k application w1
   }"
| "run_widget_program (Call_setText textEdit text k) application w = do {
     w1 \<leftarrow> setText textEdit text w;
     run_widget_program k application w1
   }"
| "run_widget_program (Call_getText textEdit k) application w = do {
     (text, w1) \<leftarrow> getText textEdit w;
     run_widget_program (k text) application w1
   }"
| "run_widget_program (Widget_cout s k) application w =
     run_widget_program k application (print s w)"
| "run_widget_program (Widget_delete p k) application w = do {
     w1 \<leftarrow> delete_object p w;
     run_widget_program k application w1
   }"




section \<open>Sample worlds\<close>

text \<open>
  Worlds the two programs pass through, used to instantiate the theorems below. In the
  factory worlds the client has created its button and its text edit and has set the text;
  in the builder worlds the client has constructed a builder and handed it to the director.
\<close>

definition Windows_factory_world :: "fobj world" where
  "Windows_factory_world =
     \<lparr>heap = [0 \<mapsto> WindowsWindowApplication, 1 \<mapsto> WindowsButton,
              2 \<mapsto> WindowsTextEdit ''Hello OS''],
      fresh = 3,
      cout = ''Windows TextEdit text set to '' @ apostrophe @ ''Hello OS'' @ apostrophe @ endl,
      created = [WindowsWindowApplication, WindowsButton, WindowsTextEdit []]\<rparr>"

definition MacOS_factory_world :: "fobj world" where
  "MacOS_factory_world =
     \<lparr>heap = [0 \<mapsto> MacOSWindowApplication, 1 \<mapsto> MacOSButton,
              2 \<mapsto> MacOSTextEdit ''Hello OS''],
      fresh = 3,
      cout = ''MacOS TextEdit text set to '' @ apostrophe @ ''Hello OS'' @ apostrophe @ endl,
      created = [MacOSWindowApplication, MacOSButton, MacOSTextEdit []]\<rparr>"

definition Windows_builder_world :: "bobj world" where
  "Windows_builder_world =
     \<lparr>heap = [0 \<mapsto> WindowCreationManager (Some 1), 1 \<mapsto> WindowsWindowBuilder (Some 2),
              2 \<mapsto> WindowsWindow []],
      fresh = 3,
      cout = [],
      created = [WindowCreationManager None, WindowsWindowBuilder None, WindowsWindow []]\<rparr>"

definition MacOS_builder_world :: "bobj world" where
  "MacOS_builder_world =
     \<lparr>heap = [0 \<mapsto> WindowCreationManager (Some 1), 1 \<mapsto> MacOSWindowBuilder (Some 2),
              2 \<mapsto> MacOSWindow []],
      fresh = 3,
      cout = [],
      created = [WindowCreationManager None, MacOSWindowBuilder None, MacOSWindow []]\<rparr>"

text \<open>
  Two later worlds of the builder demo: the Windows world after the default recipe has run,
  and the MacOS world after the client has deleted the builder's window.
\<close>

definition Windows_built_world :: "bobj world" where
  "Windows_built_world =
     store 2 (WindowsWindow ''Window: Standard Windows; Menubar: Windows default; Window title: New Window;Background color: Windows default; '')
       Windows_builder_world"

definition MacOS_deleted_world :: "bobj world" where
  "MacOS_deleted_world =
     MacOS_builder_world\<lparr>heap := (heap MacOS_builder_world)(2 := None)\<rparr>"


section \<open>Basic facts\<close>

lemmas world_defs = new_object_def delete_object_def store_def print_def

lemmas run_defs = exit_code_def console_def objects_created_def

lemmas factory_defs =
  client_code_abstract_factory_def createButton_def createTextEdit_def
  WindowsWindowApplication_createButton_def WindowsWindowApplication_createTextEdit_def
  MacOSWindowApplication_createButton_def MacOSWindowApplication_createTextEdit_def
  buttonClick_def WindowsButton_buttonClick_def MacOSButton_buttonClick_def
  getText_def setText_def WindowsTextEdit_getText_def WindowsTextEdit_setText_def
  MacOSTextEdit_getText_def MacOSTextEdit_setText_def

lemmas builder_step_defs =
  createNativeWindow_def addMenubar_def setTitle_def setDefaultBackgroundColor_def
  MacOSWindowBuilder_createNativeWindow_def MacOSWindowBuilder_addMenubar_def
  MacOSWindowBuilder_setTitle_def MacOSWindowBuilder_setDefaultBackgroundColor_def
  WindowsWindowBuilder_createNativeWindow_def WindowsWindowBuilder_addMenubar_def
  WindowsWindowBuilder_setTitle_def WindowsWindowBuilder_setDefaultBackgroundColor_def
  MacOSWindowBuilder_append_def WindowsWindowBuilder_append_def

lemmas builder_defs =
  client_code_builder_def new_WindowsWindowBuilder_def new_MacOSWindowBuilder_def
  WindowsWindowBuilder_reset_def MacOSWindowBuilder_reset_def
  delete_WindowsWindowBuilder_def delete_MacOSWindowBuilder_def
  WindowsWindowBuilder_getWindow_def MacOSWindowBuilder_getWindow_def
  WindowsWindow_printStructure_def MacOSWindow_printStructure_def
  setBuilder_def m_builder_def createDefaultWindow_def createWindowWithTitle_def

lemma heap_store: "heap (store p ob w) a = (if a = p then Some ob else heap w a)"
  by (simp add: store_def)

lemma store_store: "store p ob (store p ob' w) = store p ob w"
  by (simp add: store_def)

lemma m_builder_store:
  "heap w m = Some (WindowCreationManager (Some b)) \<Longrightarrow> p \<noteq> m \<Longrightarrow>
   m_builder m (store p ob w) = Some b"
  by (simp add: m_builder_def store_def)

text \<open>
  Every address from the next unused one on is free. This holds of the initial world and
  is kept by allocation, deletion, printing and assignment to a live object, the
  operations every member function above is made of.
\<close>

lemma world0_fresh_unused: "\<forall>a\<ge>fresh world0. heap world0 a = None"
  by (simp add: world0_def)

lemma new_object_fresh_unused:
  assumes "\<forall>a\<ge>fresh w. heap w a = None" and "new_object ob w = (p, w')"
  shows "\<forall>a\<ge>fresh w'. heap w' a = None"
  using assms by (auto simp: new_object_def)

lemma delete_object_fresh_unused:
  assumes "\<forall>a\<ge>fresh w. heap w a = None" and "delete_object p w = Some w'"
  shows "\<forall>a\<ge>fresh w'. heap w' a = None"
  using assms by (auto simp: delete_object_def split: option.splits)

lemma store_fresh_unused:
  assumes "\<forall>a\<ge>fresh w. heap w a = None" and "heap w p = Some ob'"
  shows "\<forall>a\<ge>fresh (store p ob w). heap (store p ob w) a = None"
  using assms by (auto simp: store_def)

lemma print_fresh_unused:
  assumes "\<forall>a\<ge>fresh w. heap w a = None"
  shows "\<forall>a\<ge>fresh (print s w). heap (print s w) a = None"
  using assms by (simp add: print_def)

text \<open>The sample worlds are worlds of the programs.\<close>

lemma Windows_factory_world_reached:
  "do { (app, w1) \<leftarrow> Some (new_object WindowsWindowApplication world0);
        (button, w2) \<leftarrow> createButton app w1;
        (textEdit, w3) \<leftarrow> createTextEdit app w2;
        setText textEdit ''Hello OS'' w3 } = Some Windows_factory_world"
  by (auto simp add: Windows_factory_world_def world0_def factory_defs world_defs fun_eq_iff)

lemma MacOS_factory_world_reached:
  "do { (app, w1) \<leftarrow> Some (new_object MacOSWindowApplication world0);
        (button, w2) \<leftarrow> createButton app w1;
        (textEdit, w3) \<leftarrow> createTextEdit app w2;
        setText textEdit ''Hello OS'' w3 } = Some MacOS_factory_world"
  by (auto simp add: MacOS_factory_world_def world0_def factory_defs world_defs fun_eq_iff)

lemma Windows_builder_world_reached:
  "do { (manager, w1) \<leftarrow> Some (new_object (WindowCreationManager None) world0);
        (builder, w2) \<leftarrow> new_WindowsWindowBuilder w1;
        setBuilder manager builder w2 } = Some Windows_builder_world"
  by (auto simp add: Windows_builder_world_def world0_def builder_defs world_defs fun_eq_iff)

lemma MacOS_builder_world_reached:
  "do { (manager, w1) \<leftarrow> Some (new_object (WindowCreationManager None) world0);
        (builder, w2) \<leftarrow> new_MacOSWindowBuilder w1;
        setBuilder manager builder w2 } = Some MacOS_builder_world"
  by (auto simp add: MacOS_builder_world_def world0_def builder_defs world_defs fun_eq_iff)

text \<open>One step of a builder whose product is live appends the step's fragment.\<close>

lemma Windows_steps:
  assumes "heap w b = Some (WindowsWindowBuilder (Some p))"
    and "heap w p = Some (WindowsWindow s)"
  shows "createNativeWindow b w =
           Some (store p (WindowsWindow (s @ ''Window: Standard Windows; '')) w)"
    and "addMenubar b w =
           Some (store p (WindowsWindow (s @ ''Menubar: Windows default; '')) w)"
    and "setTitle b title w =
           Some (store p (WindowsWindow (s @ ''Window title: '' @ title @ '';'')) w)"
    and "setDefaultBackgroundColor b w =
           Some (store p (WindowsWindow (s @ ''Background color: Windows default; '')) w)"
  using assms by (simp_all add: builder_step_defs)

lemma MacOS_steps:
  assumes "heap w b = Some (MacOSWindowBuilder (Some p))"
    and "heap w p = Some (MacOSWindow s)"
  shows "createNativeWindow b w =
           Some (store p (MacOSWindow (s @ ''Window: Standard MacOS; '')) w)"
    and "addMenubar b w =
           Some (store p (MacOSWindow (s @ ''Menubar: MacOS default; '')) w)"
    and "setTitle b title w =
           Some (store p (MacOSWindow (s @ ''Window title: '' @ title @ '';'')) w)"
    and "setDefaultBackgroundColor b w =
           Some (store p (MacOSWindow (s @ ''Background color: MacOS default; '')) w)"
  using assms by (simp_all add: builder_step_defs)

text \<open>The director's recipe on a builder whose product is live.\<close>

lemma Windows_recipe:
  assumes m: "heap w m = Some (WindowCreationManager (Some b))"
    and b: "heap w b = Some (WindowsWindowBuilder (Some p))"
    and p: "heap w p = Some (WindowsWindow s)"
  shows "createWindowWithTitle m title w =
     Some (store p (WindowsWindow (s @ ''Window: Standard Windows; ''
        @ ''Menubar: Windows default; '' @ (''Window title: '' @ title @ '';'')
        @ ''Background color: Windows default; '')) w)"
proof -
  from m b p have ne: "p \<noteq> m" "p \<noteq> b" by auto
  have mb: "m_builder m w = Some b" using m by (simp add: m_builder_def)
  show ?thesis
    using m b p ne
    by (simp add: createWindowWithTitle_def mb m_builder_store Windows_steps heap_store
          store_store)
qed

lemma MacOS_recipe:
  assumes m: "heap w m = Some (WindowCreationManager (Some b))"
    and b: "heap w b = Some (MacOSWindowBuilder (Some p))"
    and p: "heap w p = Some (MacOSWindow s)"
  shows "createWindowWithTitle m title w =
     Some (store p (MacOSWindow (s @ ''Window: Standard MacOS; ''
        @ ''Menubar: MacOS default; '' @ (''Window title: '' @ title @ '';'')
        @ ''Background color: MacOS default; '')) w)"
proof -
  from m b p have ne: "p \<noteq> m" "p \<noteq> b" by auto
  have mb: "m_builder m w = Some b" using m by (simp add: m_builder_def)
  show ?thesis
    using m b p ne
    by (simp add: createWindowWithTitle_def mb m_builder_store MacOS_steps heap_store
          store_store)
qed

lemma default_recipe: "createDefaultWindow m w = createWindowWithTitle m ''New Window'' w"
  by (simp add: createDefaultWindow_def createWindowWithTitle_def)

lemma Windows_built_world_reached:
  "createDefaultWindow 0 Windows_builder_world = Some Windows_built_world"
proof -
  have "heap Windows_builder_world 0 = Some (WindowCreationManager (Some 1))"
    and "heap Windows_builder_world 1 = Some (WindowsWindowBuilder (Some 2))"
    and "heap Windows_builder_world 2 = Some (WindowsWindow [])"
    by (simp_all add: Windows_builder_world_def)
  then show ?thesis
    using Windows_recipe [of Windows_builder_world 0 1 2 "[]" "''New Window''"]
    by (simp add: default_recipe Windows_built_world_def)
qed

lemma MacOS_deleted_world_reached:
  "delete_object 2 MacOS_builder_world = Some MacOS_deleted_world"
  by (simp add: delete_object_def MacOS_deleted_world_def MacOS_builder_world_def)

text \<open>The steps of a builder leave the director's \<^verbatim>\<open>m_builder\<close> as it is.\<close>

lemma append_m_builder:
  "WindowsWindowBuilder_append b s w = Some w1 \<Longrightarrow> m_builder m w1 = m_builder m w"
  "MacOSWindowBuilder_append b s w = Some w1 \<Longrightarrow> m_builder m w1 = m_builder m w"
  by (auto simp: WindowsWindowBuilder_append_def MacOSWindowBuilder_append_def m_builder_def
        store_def split: option.splits bobj.splits if_splits)

lemma step_m_builder:
  "createNativeWindow b w = Some w1 \<Longrightarrow> m_builder m w1 = m_builder m w"
  "addMenubar b w = Some w1 \<Longrightarrow> m_builder m w1 = m_builder m w"
  "setTitle b title w = Some w1 \<Longrightarrow> m_builder m w1 = m_builder m w"
  "setDefaultBackgroundColor b w = Some w1 \<Longrightarrow> m_builder m w1 = m_builder m w"
  by (auto simp: createNativeWindow_def addMenubar_def setTitle_def setDefaultBackgroundColor_def
        MacOSWindowBuilder_createNativeWindow_def MacOSWindowBuilder_addMenubar_def
        MacOSWindowBuilder_setTitle_def MacOSWindowBuilder_setDefaultBackgroundColor_def
        WindowsWindowBuilder_createNativeWindow_def WindowsWindowBuilder_addMenubar_def
        WindowsWindowBuilder_setTitle_def WindowsWindowBuilder_setDefaultBackgroundColor_def
        append_m_builder split: option.splits bobj.splits)

text \<open>So the recipe is the four steps on the builder the director holds at its start.\<close>

lemma recipe_steps:
  "createWindowWithTitle m title w = do {
     b \<leftarrow> m_builder m w;
     w1 \<leftarrow> createNativeWindow b w;
     w2 \<leftarrow> addMenubar b w1;
     w3 \<leftarrow> setTitle b title w2;
     setDefaultBackgroundColor b w3
   }"
proof (cases "m_builder m w")
  case None
  then show ?thesis by (simp add: createWindowWithTitle_def)
next
  case b: (Some b)
  show ?thesis
  proof (cases "createNativeWindow b w")
    case None
    with b show ?thesis by (simp add: createWindowWithTitle_def)
  next
    case w1: (Some w1)
    have b1: "m_builder m w1 = Some b" using step_m_builder(1) [OF w1] b by simp
    show ?thesis
    proof (cases "addMenubar b w1")
      case None
      with b w1 b1 show ?thesis by (simp add: createWindowWithTitle_def)
    next
      case w2: (Some w2)
      have b2: "m_builder m w2 = Some b" using step_m_builder(2) [OF w2] b1 by simp
      show ?thesis
      proof (cases "setTitle b title w2")
        case None
        with b w1 b1 w2 b2 show ?thesis by (simp add: createWindowWithTitle_def)
      next
        case w3: (Some w3)
        have b3: "m_builder m w3 = Some b" using step_m_builder(3) [OF w3] b2 by simp
        with b w1 b1 w2 b2 w3 show ?thesis by (simp add: createWindowWithTitle_def)
      qed
    qed
  qed
qed

text \<open>The builder demo runs to its end and prints its four descriptions.\<close>

lemma main_builder_console:
  "console (main_builder world0) =
     Some (''Window: Standard Windows; Menubar: Windows default; Window title: New Window;Background color: Windows default; '' @ endl
         @ ''Window: Standard Windows; Menubar: Windows default; Window title: New title;Background color: Windows default; '' @ endl
         @ ''Window: Standard MacOS; Menubar: MacOS default; Window title: New Window;Background color: MacOS default; '' @ endl
         @ ''Window: Standard MacOS; Menubar: MacOS default; Window title: New title;Background color: MacOS default; '' @ endl)"
  by (simp add: console_def main_builder_def world0_def builder_defs builder_step_defs
        world_defs)



subsection \<open>Programs over the abstract capability set\<close>


text \<open>
  A program over the widget classes creates objects through the factory it was handed and
  in no other way.
\<close>

lemma widget_program_created:
  "run_widget_program prog application w = Some w' \<Longrightarrow>
   \<exists>new. created w' = created w @ new
       \<and> set new \<subseteq> {WindowsButton, WindowsTextEdit [], MacOSButton, MacOSTextEdit []}"
proof (induction prog arbitrary: w)
  case Widget_return
  then show ?case by simp
next
  case (Call_createButton k)
  from Call_createButton.prems obtain p w1 where
    c: "createButton application w = Some (p, w1)"
    and r: "run_widget_program (k p) application w1 = Some w'"
    by (auto split: Option.bind_splits)
  from c have "created w1 = created w @ [WindowsButton] \<or> created w1 = created w @ [MacOSButton]"
    by (auto simp: createButton_def WindowsWindowApplication_createButton_def
          MacOSWindowApplication_createButton_def new_object_def
          split: option.splits fobj.splits)
  with Call_createButton.IH [OF _ r] show ?case by auto
next
  case (Call_createTextEdit k)
  from Call_createTextEdit.prems obtain p w1 where
    c: "createTextEdit application w = Some (p, w1)"
    and r: "run_widget_program (k p) application w1 = Some w'"
    by (auto split: Option.bind_splits)
  from c have "created w1 = created w @ [WindowsTextEdit []]
             \<or> created w1 = created w @ [MacOSTextEdit []]"
    by (auto simp: createTextEdit_def WindowsWindowApplication_createTextEdit_def
          MacOSWindowApplication_createTextEdit_def new_object_def
          split: option.splits fobj.splits)
  with Call_createTextEdit.IH [OF _ r] show ?case by auto
next
  case (Call_buttonClick b k)
  from Call_buttonClick.prems obtain w1 where
    c: "buttonClick b w = Some w1" and r: "run_widget_program k application w1 = Some w'"
    by (auto split: Option.bind_splits)
  from c have "created w1 = created w"
    by (auto simp: buttonClick_def WindowsButton_buttonClick_def MacOSButton_buttonClick_def
          print_def split: option.splits fobj.splits)
  with Call_buttonClick.IH [OF r] show ?case by simp
next
  case (Call_setText t s k)
  from Call_setText.prems obtain w1 where
    c: "setText t s w = Some w1" and r: "run_widget_program k application w1 = Some w'"
    by (auto split: Option.bind_splits)
  from c have "created w1 = created w"
    by (auto simp: setText_def WindowsTextEdit_setText_def MacOSTextEdit_setText_def
          print_def store_def split: option.splits fobj.splits)
  with Call_setText.IH [OF r] show ?case by simp
next
  case (Call_getText t k)
  from Call_getText.prems obtain s w1 where
    c: "getText t w = Some (s, w1)" and r: "run_widget_program (k s) application w1 = Some w'"
    by (auto split: Option.bind_splits)
  from c have "created w1 = created w"
    by (auto simp: getText_def WindowsTextEdit_getText_def MacOSTextEdit_getText_def
          split: option.splits fobj.splits)
  with Call_getText.IH [OF _ r] show ?case by simp
next
  case (Widget_cout s k)
  from Widget_cout.IH [of "print s w"] Widget_cout.prems show ?case by (simp add: print_def)
next
  case (Widget_delete p k)
  from Widget_delete.prems obtain w1 where
    c: "delete_object p w = Some w1" and r: "run_widget_program k application w1 = Some w'"
    by (auto split: Option.bind_splits)
  from c have "created w1 = created w"
    by (auto simp: delete_object_def split: option.splits)
  with Widget_delete.IH [OF r] show ?case by simp
qed










section \<open>The claims\<close>

subsection \<open>The abstract factory demo\<close>

text \<open>
  Claim C1. With the selector Windows the factory demo creates the Windows factory, a
  Windows button and a Windows text edit, prints the three lines of the client with the
  Windows identifiers, and returns 0; with the selector MacOS it does the same with the
  MacOS classes and identifiers. The selector the file configures is Windows.
\<close>

theorem factory_demo_supported_platforms:
  "console (main_abstract_factory Windows w) =
     Some (cout w @ ''Windows button was clicked'' @ endl
           @ ''Windows TextEdit text set to '' @ apostrophe @ ''Hello OS'' @ apostrophe @ endl
           @ ''Text edit have text -> '' @ ''Hello OS'' @ endl)
   \<and> objects_created (main_abstract_factory Windows w) =
     Some (created w @ [WindowsWindowApplication, WindowsButton, WindowsTextEdit []])
   \<and> exit_code (main_abstract_factory Windows w) = Some 0
   \<and> console (main_abstract_factory MacOS w) =
     Some (cout w @ ''MacOS button was clicked'' @ endl
           @ ''MacOS TextEdit text set to '' @ apostrophe @ ''Hello OS'' @ apostrophe @ endl
           @ ''Text edit have text -> '' @ ''Hello OS'' @ endl)
   \<and> objects_created (main_abstract_factory MacOS w) =
     Some (created w @ [MacOSWindowApplication, MacOSButton, MacOSTextEdit []])
   \<and> exit_code (main_abstract_factory MacOS w) = Some 0
   \<and> USED_API = Windows"
  by (simp add: run_defs main_abstract_factory_def factory_defs world_defs
        USED_API_def select_api_def PLATFORM_WINDOWS_def)

text \<open>
  Claim C2. With the selector None the factory demo prints its diagnostic and returns 1 at
  once: the console gains the diagnostic and nothing else in the world changes, so no
  object is created. Both macros at 0 give this selector.
\<close>

theorem factory_demo_no_platform:
  "main_abstract_factory None_OS w = Some (1, print ''None of platforms is chosen!'' w)
   \<and> exit_code (main_abstract_factory None_OS w) = Some 1
   \<and> console (main_abstract_factory None_OS w) = Some (cout w @ ''None of platforms is chosen!'')
   \<and> objects_created (main_abstract_factory None_OS w) = Some (created w)
   \<and> objects_created (main_abstract_factory None_OS world0) = Some []
   \<and> select_api 0 0 = None_OS"
  by (simp add: run_defs main_abstract_factory_def print_def world0_def select_api_def)

text \<open>
  Claim C7. For a text edit of either class holding any text, \<^verbatim>\<open>getText()\<close> returns the
  text and leaves the world as it was, so a second call, and every further call, returns
  the same text.
\<close>

theorem getText_repeatable:
  assumes "heap w p = Some (WindowsTextEdit t) \<or> heap w p = Some (MacOSTextEdit t)"
  shows "getText p w = Some (t, w)
     \<and> do { (a, w1) \<leftarrow> getText p w; getText p w1 } = Some (t, w)
     \<and> (\<forall>n. ((\<lambda>r. do { (a, w1) \<leftarrow> r; getText p w1 }) ^^ n) (getText p w) = Some (t, w))"
proof -
  have g: "getText p w = Some (t, w)"
    using assms by (auto simp: getText_def WindowsTextEdit_getText_def MacOSTextEdit_getText_def)
  have "((\<lambda>r. do { (a, w1) \<leftarrow> r; getText p w1 }) ^^ n) (getText p w) = Some (t, w)" for n
    by (induction n) (simp_all add: g)
  with g show ?thesis by simp
qed

theorem getText_repeatable_witness:
  "heap Windows_factory_world 2 = Some (WindowsTextEdit ''Hello OS'')
   \<and> getText 2 Windows_factory_world = Some (''Hello OS'', Windows_factory_world)
   \<and> do { (a, w1) \<leftarrow> getText 2 Windows_factory_world; getText 2 w1 }
       = Some (''Hello OS'', Windows_factory_world)
   \<and> heap MacOS_factory_world 2 = Some (MacOSTextEdit ''Hello OS'')
   \<and> getText 2 MacOS_factory_world = Some (''Hello OS'', MacOS_factory_world)
   \<and> do { (a, w1) \<leftarrow> getText 2 MacOS_factory_world; getText 2 w1 }
       = Some (''Hello OS'', MacOS_factory_world)"
proof -
  have h1: "heap Windows_factory_world 2 = Some (WindowsTextEdit ''Hello OS'')"
    by (simp add: Windows_factory_world_def)
  have h2: "heap MacOS_factory_world 2 = Some (MacOSTextEdit ''Hello OS'')"
    by (simp add: MacOS_factory_world_def)
  show ?thesis
    using h1 h2
      getText_repeatable [of Windows_factory_world 2 "''Hello OS''"]
      getText_repeatable [of MacOS_factory_world 2 "''Hello OS''"]
    by simp
qed

text \<open>
  Claim C9. For a text edit of either class and every string \<open>s\<close>, \<^verbatim>\<open>setText(s)\<close>
  succeeds, the text edit then holds exactly \<open>s\<close>, and \<^verbatim>\<open>getText()\<close> returns exactly
  \<open>s\<close>.
\<close>

theorem setText_getText_roundtrip:
  assumes "heap w p = Some (WindowsTextEdit t) \<or> heap w p = Some (MacOSTextEdit t)"
  shows "\<exists>w'. setText p s w = Some w'
            \<and> getText p w' = Some (s, w')
            \<and> (heap w' p = Some (WindowsTextEdit s) \<or> heap w' p = Some (MacOSTextEdit s))"
  using assms by (auto simp: factory_defs world_defs)

theorem setText_getText_roundtrip_witness:
  "heap Windows_factory_world 2 = Some (WindowsTextEdit ''Hello OS'')
   \<and> do { w' \<leftarrow> setText 2 ''a  b; '' Windows_factory_world; (s, w'') \<leftarrow> getText 2 w'; Some s }
       = Some ''a  b; ''
   \<and> heap MacOS_factory_world 2 = Some (MacOSTextEdit ''Hello OS'')
   \<and> do { w' \<leftarrow> setText 2 [] MacOS_factory_world; (s, w'') \<leftarrow> getText 2 w'; Some s }
       = Some []"
proof -
  have h1: "heap Windows_factory_world 2 = Some (WindowsTextEdit ''Hello OS'')"
    by (simp add: Windows_factory_world_def)
  have h2: "heap MacOS_factory_world 2 = Some (MacOSTextEdit ''Hello OS'')"
    by (simp add: MacOS_factory_world_def)
  from setText_getText_roundtrip [of Windows_factory_world 2 "''Hello OS''" "''a  b; ''"] h1
  have r1: "do { w' \<leftarrow> setText 2 ''a  b; '' Windows_factory_world; (s, w'') \<leftarrow> getText 2 w'; Some s }
       = Some ''a  b; ''"
    by auto
  from setText_getText_roundtrip [of MacOS_factory_world 2 "''Hello OS''" "[]"] h2
  have r2: "do { w' \<leftarrow> setText 2 [] MacOS_factory_world; (s, w'') \<leftarrow> getText 2 w'; Some s }
       = Some []"
    by auto
  from h1 h2 r1 r2 show ?thesis by simp
qed

text \<open>
  Claim C10. A text edit that \<^verbatim>\<open>createTextEdit()\<close> of either factory has just created
  holds the empty string: \<^verbatim>\<open>getText()\<close> on it returns the empty string.
\<close>

theorem created_TextEdit_is_empty:
  assumes "heap w app = Some WindowsWindowApplication \<or> heap w app = Some MacOSWindowApplication"
  shows "\<exists>p w'. createTextEdit app w = Some (p, w') \<and> getText p w' = Some ([], w')"
  using assms by (auto simp: factory_defs world_defs)

theorem created_TextEdit_is_empty_witness:
  "heap Windows_factory_world 0 = Some WindowsWindowApplication
   \<and> do { (p, w') \<leftarrow> createTextEdit 0 Windows_factory_world; (s, w'') \<leftarrow> getText p w'; Some s }
       = Some []
   \<and> heap MacOS_factory_world 0 = Some MacOSWindowApplication
   \<and> do { (p, w') \<leftarrow> createTextEdit 0 MacOS_factory_world; (s, w'') \<leftarrow> getText p w'; Some s }
       = Some []"
proof -
  have h1: "heap Windows_factory_world 0 = Some WindowsWindowApplication"
    by (simp add: Windows_factory_world_def)
  have h2: "heap MacOS_factory_world 0 = Some MacOSWindowApplication"
    by (simp add: MacOS_factory_world_def)
  from created_TextEdit_is_empty [of Windows_factory_world 0] h1
  have r1: "do { (p, w') \<leftarrow> createTextEdit 0 Windows_factory_world; (s, w'') \<leftarrow> getText p w'; Some s }
       = Some []"
    by auto
  from created_TextEdit_is_empty [of MacOS_factory_world 0] h2
  have r2: "do { (p, w') \<leftarrow> createTextEdit 0 MacOS_factory_world; (s, w'') \<leftarrow> getText p w'; Some s }
       = Some []"
    by auto
  from h1 h2 r1 r2 show ?thesis by simp
qed

subsection \<open>The builder demo\<close>

text \<open>
  Claim C3. On a builder of either platform whose product is new and empty, as
  \<^verbatim>\<open>reset()\<close> leaves it, \<^verbatim>\<open>createDefaultWindow\<close> followed by
  \<^verbatim>\<open>printStructure\<close> on the builder's window prints the description made of the
  platform's native window fragment, its menubar fragment, the title fragment with the
  title "New Window" and its background fragment, in this order, and the window holds
  this description.
\<close>

theorem createDefaultWindow_on_reset_builder:
  assumes "heap w m = Some (WindowCreationManager (Some b))"
  shows "(heap w b = Some (WindowsWindowBuilder (Some p)) \<and> heap w p = Some (WindowsWindow [])
          \<longrightarrow> (let description = ''Window: Standard Windows; '' @ ''Menubar: Windows default; ''
                     @ (''Window title: '' @ ''New Window'' @ '';'')
                     @ ''Background color: Windows default; ''
               in do { w1 \<leftarrow> createDefaultWindow m w;
                       (q, w2) \<leftarrow> WindowsWindowBuilder_getWindow b w1;
                       WindowsWindow_printStructure q w2 }
                  = Some (print (description @ endl) (store p (WindowsWindow description) w))))
       \<and> (heap w b = Some (MacOSWindowBuilder (Some p)) \<and> heap w p = Some (MacOSWindow [])
          \<longrightarrow> (let description = ''Window: Standard MacOS; '' @ ''Menubar: MacOS default; ''
                     @ (''Window title: '' @ ''New Window'' @ '';'')
                     @ ''Background color: MacOS default; ''
               in do { w1 \<leftarrow> createDefaultWindow m w;
                       (q, w2) \<leftarrow> MacOSWindowBuilder_getWindow b w1;
                       MacOSWindow_printStructure q w2 }
                  = Some (print (description @ endl) (store p (MacOSWindow description) w))))"
proof (intro conjI impI)
  assume h: "heap w b = Some (WindowsWindowBuilder (Some p)) \<and> heap w p = Some (WindowsWindow [])"
  then have ne: "p \<noteq> b" by auto
  from assms h have "createDefaultWindow m w =
      Some (store p (WindowsWindow (''Window: Standard Windows; '' @ ''Menubar: Windows default; ''
        @ (''Window title: '' @ ''New Window'' @ '';'') @ ''Background color: Windows default; '')) w)"
    using Windows_recipe [of w m b p "[]" "''New Window''"] by (simp add: default_recipe)
  with h ne
  show "let description = ''Window: Standard Windows; '' @ ''Menubar: Windows default; ''
                     @ (''Window title: '' @ ''New Window'' @ '';'')
                     @ ''Background color: Windows default; ''
        in do { w1 \<leftarrow> createDefaultWindow m w;
                (q, w2) \<leftarrow> WindowsWindowBuilder_getWindow b w1;
                WindowsWindow_printStructure q w2 }
           = Some (print (description @ endl) (store p (WindowsWindow description) w))"
    by (simp add: WindowsWindowBuilder_getWindow_def WindowsWindow_printStructure_def heap_store)
next
  assume h: "heap w b = Some (MacOSWindowBuilder (Some p)) \<and> heap w p = Some (MacOSWindow [])"
  then have ne: "p \<noteq> b" by auto
  from assms h have "createDefaultWindow m w =
      Some (store p (MacOSWindow (''Window: Standard MacOS; '' @ ''Menubar: MacOS default; ''
        @ (''Window title: '' @ ''New Window'' @ '';'') @ ''Background color: MacOS default; '')) w)"
    using MacOS_recipe [of w m b p "[]" "''New Window''"] by (simp add: default_recipe)
  with h ne
  show "let description = ''Window: Standard MacOS; '' @ ''Menubar: MacOS default; ''
                     @ (''Window title: '' @ ''New Window'' @ '';'')
                     @ ''Background color: MacOS default; ''
        in do { w1 \<leftarrow> createDefaultWindow m w;
                (q, w2) \<leftarrow> MacOSWindowBuilder_getWindow b w1;
                MacOSWindow_printStructure q w2 }
           = Some (print (description @ endl) (store p (MacOSWindow description) w))"
    by (simp add: MacOSWindowBuilder_getWindow_def MacOSWindow_printStructure_def heap_store)
qed

theorem createDefaultWindow_on_reset_builder_witness:
  "heap Windows_builder_world 0 = Some (WindowCreationManager (Some 1))
   \<and> heap Windows_builder_world 1 = Some (WindowsWindowBuilder (Some 2))
   \<and> heap Windows_builder_world 2 = Some (WindowsWindow [])
   \<and> map_option cout
        (do { w1 \<leftarrow> createDefaultWindow 0 Windows_builder_world;
              (q, w2) \<leftarrow> WindowsWindowBuilder_getWindow 1 w1;
              WindowsWindow_printStructure q w2 })
       = Some (''Window: Standard Windows; Menubar: Windows default; Window title: New Window;Background color: Windows default; '' @ endl)
   \<and> heap MacOS_builder_world 0 = Some (WindowCreationManager (Some 1))
   \<and> heap MacOS_builder_world 1 = Some (MacOSWindowBuilder (Some 2))
   \<and> heap MacOS_builder_world 2 = Some (MacOSWindow [])
   \<and> map_option cout
        (do { w1 \<leftarrow> createDefaultWindow 0 MacOS_builder_world;
              (q, w2) \<leftarrow> MacOSWindowBuilder_getWindow 1 w1;
              MacOSWindow_printStructure q w2 })
       = Some (''Window: Standard MacOS; Menubar: MacOS default; Window title: New Window;Background color: MacOS default; '' @ endl)"
proof -
  have w: "heap Windows_builder_world 0 = Some (WindowCreationManager (Some 1))"
    "heap Windows_builder_world 1 = Some (WindowsWindowBuilder (Some 2))"
    "heap Windows_builder_world 2 = Some (WindowsWindow [])"
    "cout Windows_builder_world = []"
    by (simp_all add: Windows_builder_world_def)
  have m: "heap MacOS_builder_world 0 = Some (WindowCreationManager (Some 1))"
    "heap MacOS_builder_world 1 = Some (MacOSWindowBuilder (Some 2))"
    "heap MacOS_builder_world 2 = Some (MacOSWindow [])"
    "cout MacOS_builder_world = []"
    by (simp_all add: MacOS_builder_world_def)
  show ?thesis
    using w m
      createDefaultWindow_on_reset_builder [of Windows_builder_world 0 1 2]
      createDefaultWindow_on_reset_builder [of MacOS_builder_world 0 1 2]
    by (simp add: print_def store_def)
qed

text \<open>
  Claim C4. For every director and every world, \<^verbatim>\<open>createDefaultWindow()\<close> has exactly
  the effect of \<^verbatim>\<open>createWindowWithTitle("New Window")\<close>, and the recipe with a title is
  the four steps \<^verbatim>\<open>createNativeWindow\<close>, \<^verbatim>\<open>addMenubar\<close>, \<^verbatim>\<open>setTitle\<close>,
  \<^verbatim>\<open>setDefaultBackgroundColor\<close> on the director's builder, in this order, with the
  title passed to \<^verbatim>\<open>setTitle\<close>.
\<close>

theorem createDefaultWindow_is_titled_recipe:
  "createDefaultWindow m w = createWindowWithTitle m ''New Window'' w
   \<and> createWindowWithTitle m title w = do {
       b \<leftarrow> m_builder m w;
       w1 \<leftarrow> createNativeWindow b w;
       w2 \<leftarrow> addMenubar b w1;
       w3 \<leftarrow> setTitle b title w2;
       setDefaultBackgroundColor b w3
     }"
  using recipe_steps [of m title w]
  by (simp add: createDefaultWindow_def createWindowWithTitle_def)

text \<open>
  Claim C5. Whatever a builder of either platform held before (no product, a product
  with any description, a product already deleted), \<^verbatim>\<open>reset()\<close> gives it a new window
  at an address not in use before, with an empty description; then
  \<^verbatim>\<open>createWindowWithTitle("New title")\<close> and \<^verbatim>\<open>printStructure\<close> print the
  description of a single build with the title "New title", in which nothing of the
  earlier product occurs.
\<close>

theorem reset_starts_new_product:
  assumes "heap w m = Some (WindowCreationManager (Some b))"
    and "heap w (fresh w) = None"
  shows "(heap w b = Some (WindowsWindowBuilder old)
          \<longrightarrow> (\<exists>w1. WindowsWindowBuilder_reset b w = Some w1
                 \<and> WindowsWindowBuilder_getWindow b w1 = Some (fresh w, w1)
                 \<and> heap w1 (fresh w) = Some (WindowsWindow [])
                 \<and> (let description = ''Window: Standard Windows; ''
                          @ ''Menubar: Windows default; ''
                          @ (''Window title: '' @ ''New title'' @ '';'')
                          @ ''Background color: Windows default; ''
                    in do { w2 \<leftarrow> createWindowWithTitle m ''New title'' w1;
                            (q, w3) \<leftarrow> WindowsWindowBuilder_getWindow b w2;
                            WindowsWindow_printStructure q w3 }
                       = Some (print (description @ endl)
                                 (store (fresh w) (WindowsWindow description) w1)))))
       \<and> (heap w b = Some (MacOSWindowBuilder old)
          \<longrightarrow> (\<exists>w1. MacOSWindowBuilder_reset b w = Some w1
                 \<and> MacOSWindowBuilder_getWindow b w1 = Some (fresh w, w1)
                 \<and> heap w1 (fresh w) = Some (MacOSWindow [])
                 \<and> (let description = ''Window: Standard MacOS; ''
                          @ ''Menubar: MacOS default; ''
                          @ (''Window title: '' @ ''New title'' @ '';'')
                          @ ''Background color: MacOS default; ''
                    in do { w2 \<leftarrow> createWindowWithTitle m ''New title'' w1;
                            (q, w3) \<leftarrow> MacOSWindowBuilder_getWindow b w2;
                            MacOSWindow_printStructure q w3 }
                       = Some (print (description @ endl)
                                 (store (fresh w) (MacOSWindow description) w1)))))"
proof (intro conjI impI)
  assume h: "heap w b = Some (WindowsWindowBuilder old)"
  define w1 where
    "w1 = store b (WindowsWindowBuilder (Some (fresh w))) (snd (new_object (WindowsWindow []) w))"
  from assms h have ne: "fresh w \<noteq> b" "fresh w \<noteq> m" "m \<noteq> b" by auto
  have r: "WindowsWindowBuilder_reset b w = Some w1"
    using h by (simp add: WindowsWindowBuilder_reset_def w1_def new_object_def)
  have hm: "heap w1 m = Some (WindowCreationManager (Some b))"
    and hb: "heap w1 b = Some (WindowsWindowBuilder (Some (fresh w)))"
    and hp: "heap w1 (fresh w) = Some (WindowsWindow [])"
    using assms ne by (simp_all add: w1_def store_def new_object_def)
  have g: "WindowsWindowBuilder_getWindow b w1 = Some (fresh w, w1)"
    using hb by (simp add: WindowsWindowBuilder_getWindow_def)
  have p: "(let description = ''Window: Standard Windows; '' @ ''Menubar: Windows default; ''
                 @ (''Window title: '' @ ''New title'' @ '';'')
                 @ ''Background color: Windows default; ''
            in do { w2 \<leftarrow> createWindowWithTitle m ''New title'' w1;
                    (q, w3) \<leftarrow> WindowsWindowBuilder_getWindow b w2;
                    WindowsWindow_printStructure q w3 }
               = Some (print (description @ endl)
                         (store (fresh w) (WindowsWindow description) w1)))"
    using hb ne Windows_recipe [OF hm hb hp, of "''New title''"]
    by (simp add: WindowsWindowBuilder_getWindow_def WindowsWindow_printStructure_def heap_store)
  from r g hp p
  show "\<exists>w1. WindowsWindowBuilder_reset b w = Some w1
           \<and> WindowsWindowBuilder_getWindow b w1 = Some (fresh w, w1)
           \<and> heap w1 (fresh w) = Some (WindowsWindow [])
           \<and> (let description = ''Window: Standard Windows; '' @ ''Menubar: Windows default; ''
                    @ (''Window title: '' @ ''New title'' @ '';'')
                    @ ''Background color: Windows default; ''
              in do { w2 \<leftarrow> createWindowWithTitle m ''New title'' w1;
                      (q, w3) \<leftarrow> WindowsWindowBuilder_getWindow b w2;
                      WindowsWindow_printStructure q w3 }
                 = Some (print (description @ endl)
                           (store (fresh w) (WindowsWindow description) w1)))"
    by blast
next
  assume h: "heap w b = Some (MacOSWindowBuilder old)"
  define w1 where
    "w1 = store b (MacOSWindowBuilder (Some (fresh w))) (snd (new_object (MacOSWindow []) w))"
  from assms h have ne: "fresh w \<noteq> b" "fresh w \<noteq> m" "m \<noteq> b" by auto
  have r: "MacOSWindowBuilder_reset b w = Some w1"
    using h by (simp add: MacOSWindowBuilder_reset_def w1_def new_object_def)
  have hm: "heap w1 m = Some (WindowCreationManager (Some b))"
    and hb: "heap w1 b = Some (MacOSWindowBuilder (Some (fresh w)))"
    and hp: "heap w1 (fresh w) = Some (MacOSWindow [])"
    using assms ne by (simp_all add: w1_def store_def new_object_def)
  have g: "MacOSWindowBuilder_getWindow b w1 = Some (fresh w, w1)"
    using hb by (simp add: MacOSWindowBuilder_getWindow_def)
  have p: "(let description = ''Window: Standard MacOS; '' @ ''Menubar: MacOS default; ''
                 @ (''Window title: '' @ ''New title'' @ '';'')
                 @ ''Background color: MacOS default; ''
            in do { w2 \<leftarrow> createWindowWithTitle m ''New title'' w1;
                    (q, w3) \<leftarrow> MacOSWindowBuilder_getWindow b w2;
                    MacOSWindow_printStructure q w3 }
               = Some (print (description @ endl)
                         (store (fresh w) (MacOSWindow description) w1)))"
    using hb ne MacOS_recipe [OF hm hb hp, of "''New title''"]
    by (simp add: MacOSWindowBuilder_getWindow_def MacOSWindow_printStructure_def heap_store)
  from r g hp p
  show "\<exists>w1. MacOSWindowBuilder_reset b w = Some w1
           \<and> MacOSWindowBuilder_getWindow b w1 = Some (fresh w, w1)
           \<and> heap w1 (fresh w) = Some (MacOSWindow [])
           \<and> (let description = ''Window: Standard MacOS; '' @ ''Menubar: MacOS default; ''
                    @ (''Window title: '' @ ''New title'' @ '';'')
                    @ ''Background color: MacOS default; ''
              in do { w2 \<leftarrow> createWindowWithTitle m ''New title'' w1;
                      (q, w3) \<leftarrow> MacOSWindowBuilder_getWindow b w2;
                      MacOSWindow_printStructure q w3 }
                 = Some (print (description @ endl)
                           (store (fresh w) (MacOSWindow description) w1)))"
    by blast
qed

theorem reset_starts_new_product_witness:
  "heap Windows_built_world 0 = Some (WindowCreationManager (Some 1))
   \<and> heap Windows_built_world (fresh Windows_built_world) = None
   \<and> heap Windows_built_world 1 = Some (WindowsWindowBuilder (Some 2))
   \<and> heap Windows_built_world 2 = Some (WindowsWindow ''Window: Standard Windows; Menubar: Windows default; Window title: New Window;Background color: Windows default; '')
   \<and> map_option cout
        (do { w1 \<leftarrow> WindowsWindowBuilder_reset 1 Windows_built_world;
              w2 \<leftarrow> createWindowWithTitle 0 ''New title'' w1;
              (q, w3) \<leftarrow> WindowsWindowBuilder_getWindow 1 w2;
              WindowsWindow_printStructure q w3 })
       = Some (''Window: Standard Windows; Menubar: Windows default; Window title: New title;Background color: Windows default; '' @ endl)
   \<and> heap MacOS_deleted_world 0 = Some (WindowCreationManager (Some 1))
   \<and> heap MacOS_deleted_world (fresh MacOS_deleted_world) = None
   \<and> heap MacOS_deleted_world 1 = Some (MacOSWindowBuilder (Some 2))
   \<and> heap MacOS_deleted_world 2 = None
   \<and> map_option cout
        (do { w1 \<leftarrow> MacOSWindowBuilder_reset 1 MacOS_deleted_world;
              w2 \<leftarrow> createWindowWithTitle 0 ''New title'' w1;
              (q, w3) \<leftarrow> MacOSWindowBuilder_getWindow 1 w2;
              MacOSWindow_printStructure q w3 })
       = Some (''Window: Standard MacOS; Menubar: MacOS default; Window title: New title;Background color: MacOS default; '' @ endl)"
proof -
  have w: "heap Windows_built_world 0 = Some (WindowCreationManager (Some 1))"
    "heap Windows_built_world (fresh Windows_built_world) = None"
    "heap Windows_built_world 1 = Some (WindowsWindowBuilder (Some 2))"
    "heap Windows_built_world 2 = Some (WindowsWindow ''Window: Standard Windows; Menubar: Windows default; Window title: New Window;Background color: Windows default; '')"
    "cout Windows_built_world = []"
    by (simp_all add: Windows_built_world_def Windows_builder_world_def store_def)
  have m: "heap MacOS_deleted_world 0 = Some (WindowCreationManager (Some 1))"
    "heap MacOS_deleted_world (fresh MacOS_deleted_world) = None"
    "heap MacOS_deleted_world 1 = Some (MacOSWindowBuilder (Some 2))"
    "heap MacOS_deleted_world 2 = None"
    "cout MacOS_deleted_world = []"
    by (simp_all add: MacOS_deleted_world_def MacOS_builder_world_def)
  have cw: "WindowsWindowBuilder_reset 1 Windows_built_world = Some w1 \<Longrightarrow> cout w1 = []" for w1
    using w by (auto simp: WindowsWindowBuilder_reset_def new_object_def store_def)
  have cm: "MacOSWindowBuilder_reset 1 MacOS_deleted_world = Some w1 \<Longrightarrow> cout w1 = []" for w1
    using m by (auto simp: MacOSWindowBuilder_reset_def new_object_def store_def)
  from reset_starts_new_product [OF w(1) w(2), of "Some 2"] w(3) cw
  have r1: "map_option cout
        (do { w1 \<leftarrow> WindowsWindowBuilder_reset 1 Windows_built_world;
              w2 \<leftarrow> createWindowWithTitle 0 ''New title'' w1;
              (q, w3) \<leftarrow> WindowsWindowBuilder_getWindow 1 w2;
              WindowsWindow_printStructure q w3 })
       = Some (''Window: Standard Windows; Menubar: Windows default; Window title: New title;Background color: Windows default; '' @ endl)"
    by (auto simp: print_def store_def)
  from reset_starts_new_product [OF m(1) m(2), of "Some 2"] m(3) cm
  have r2: "map_option cout
        (do { w1 \<leftarrow> MacOSWindowBuilder_reset 1 MacOS_deleted_world;
              w2 \<leftarrow> createWindowWithTitle 0 ''New title'' w1;
              (q, w3) \<leftarrow> MacOSWindowBuilder_getWindow 1 w2;
              MacOSWindow_printStructure q w3 })
       = Some (''Window: Standard MacOS; Menubar: MacOS default; Window title: New title;Background color: MacOS default; '' @ endl)"
    by (auto simp: print_def store_def)
  from w m r1 r2 show ?thesis by simp
qed

text \<open>
  Claim C6. For a builder of either platform whose product is live with any description
  \<open>s\<close>, each of the four steps changes nothing but that product, whose description
  becomes \<open>s\<close> followed by the step's fragment. \<^verbatim>\<open>getWindow()\<close> returns the product
  and changes nothing, and after a step it returns the same product: a step after
  \<^verbatim>\<open>getWindow()\<close> goes on with the product the caller already holds.
\<close>

theorem steps_append_fragment:
  "(heap w b = Some (WindowsWindowBuilder (Some p)) \<and> heap w p = Some (WindowsWindow s)
    \<longrightarrow> WindowsWindowBuilder_getWindow b w = Some (p, w)
      \<and> createNativeWindow b w =
          Some (store p (WindowsWindow (s @ ''Window: Standard Windows; '')) w)
      \<and> addMenubar b w =
          Some (store p (WindowsWindow (s @ ''Menubar: Windows default; '')) w)
      \<and> setTitle b title w =
          Some (store p (WindowsWindow (s @ ''Window title: '' @ title @ '';'')) w)
      \<and> setDefaultBackgroundColor b w =
          Some (store p (WindowsWindow (s @ ''Background color: Windows default; '')) w)
      \<and> (\<forall>s'. WindowsWindowBuilder_getWindow b (store p (WindowsWindow s') w) =
                 Some (p, store p (WindowsWindow s') w)))
   \<and> (heap w b = Some (MacOSWindowBuilder (Some p)) \<and> heap w p = Some (MacOSWindow s)
    \<longrightarrow> MacOSWindowBuilder_getWindow b w = Some (p, w)
      \<and> createNativeWindow b w =
          Some (store p (MacOSWindow (s @ ''Window: Standard MacOS; '')) w)
      \<and> addMenubar b w =
          Some (store p (MacOSWindow (s @ ''Menubar: MacOS default; '')) w)
      \<and> setTitle b title w =
          Some (store p (MacOSWindow (s @ ''Window title: '' @ title @ '';'')) w)
      \<and> setDefaultBackgroundColor b w =
          Some (store p (MacOSWindow (s @ ''Background color: MacOS default; '')) w)
      \<and> (\<forall>s'. MacOSWindowBuilder_getWindow b (store p (MacOSWindow s') w) =
                 Some (p, store p (MacOSWindow s') w)))"
proof (intro conjI impI allI)
  fix s'
  assume h: "heap w b = Some (WindowsWindowBuilder (Some p)) \<and> heap w p = Some (WindowsWindow s)"
  then have "p \<noteq> b" by auto
  with h show "WindowsWindowBuilder_getWindow b (store p (WindowsWindow s') w) =
                 Some (p, store p (WindowsWindow s') w)"
    by (simp add: WindowsWindowBuilder_getWindow_def heap_store)
next
  fix s'
  assume h: "heap w b = Some (MacOSWindowBuilder (Some p)) \<and> heap w p = Some (MacOSWindow s)"
  then have "p \<noteq> b" by auto
  with h show "MacOSWindowBuilder_getWindow b (store p (MacOSWindow s') w) =
                 Some (p, store p (MacOSWindow s') w)"
    by (simp add: MacOSWindowBuilder_getWindow_def heap_store)
qed (simp_all add: Windows_steps MacOS_steps WindowsWindowBuilder_getWindow_def
       MacOSWindowBuilder_getWindow_def)

theorem steps_append_fragment_witness:
  "heap Windows_built_world 1 = Some (WindowsWindowBuilder (Some 2))
   \<and> heap Windows_built_world 2 = Some (WindowsWindow ''Window: Standard Windows; Menubar: Windows default; Window title: New Window;Background color: Windows default; '')
   \<and> do { (q, w1) \<leftarrow> WindowsWindowBuilder_getWindow 1 Windows_built_world;
           w2 \<leftarrow> addMenubar 1 w1;
           (q', w3) \<leftarrow> WindowsWindowBuilder_getWindow 1 w2;
           Some (q, q', heap w3 q') }
       = Some (2, 2, Some (WindowsWindow (''Window: Standard Windows; Menubar: Windows default; Window title: New Window;Background color: Windows default; '' @ ''Menubar: Windows default; '')))
   \<and> heap MacOS_builder_world 1 = Some (MacOSWindowBuilder (Some 2))
   \<and> heap MacOS_builder_world 2 = Some (MacOSWindow [])
   \<and> do { (q, w1) \<leftarrow> MacOSWindowBuilder_getWindow 1 MacOS_builder_world;
           w2 \<leftarrow> setTitle 1 ''T'' w1;
           (q', w3) \<leftarrow> MacOSWindowBuilder_getWindow 1 w2;
           Some (q, q', heap w3 q') }
       = Some (2, 2, Some (MacOSWindow ''Window title: T;''))"
proof -
  have w: "heap Windows_built_world 1 = Some (WindowsWindowBuilder (Some 2))"
    "heap Windows_built_world 2 = Some (WindowsWindow ''Window: Standard Windows; Menubar: Windows default; Window title: New Window;Background color: Windows default; '')"
    by (simp_all add: Windows_built_world_def Windows_builder_world_def store_def)
  have m: "heap MacOS_builder_world 1 = Some (MacOSWindowBuilder (Some 2))"
    "heap MacOS_builder_world 2 = Some (MacOSWindow [])"
    by (simp_all add: MacOS_builder_world_def)
  show ?thesis
    using w m
      steps_append_fragment [of Windows_built_world 1 2
        "''Window: Standard Windows; Menubar: Windows default; Window title: New Window;Background color: Windows default; ''"]
      steps_append_fragment [of MacOS_builder_world 1 2 "[]" "''T''"]
    by (simp add: heap_store)
qed



end
